theory Spec2Isabelle
  imports
    Main
    "HOL-Library.Char_ord"
    "HOL-Library.List_Lexorder"
    "HOL-Library.Multiset"
begin

section \<open>RNLI launches: the sensor platform (sensor.py)\<close>

text \<open>
  The integration polls a JSON endpoint, keeps the launches of one station, most recent
  first, and shows the latest launch as the state of a sensor with a dictionary of
  attributes. This theory embeds \<^verbatim>\<open>RNLIUpdateCoordinator._async_update_data\<close>,
  \<^verbatim>\<open>RNLILaunchSensor.state\<close> and \<^verbatim>\<open>RNLILaunchSensor.extra_state_attributes\<close>.
\<close>

subsection \<open>JSON values and Python exceptions\<close>

text \<open>
  What \<^verbatim>\<open>response.json()\<close> returns. A Python string is a \<open>string\<close> (its UTF-8
  bytes: the lexicographic order of the bytes is the order of the code points, which
  is how Python compares \<^verbatim>\<open>str\<close>); \<^verbatim>\<open>None\<close> is \<open>JNull\<close>; a dict is a map
  from its keys. Numbers are Python's unbounded integers. Scope of the model: a body is
  one JSON value or an array of values; floating point numbers and arrays nested inside
  another value are not represented.
\<close>

datatype json =
    JNull
  | JBool bool
  | JNum int
  | JStr string
  | JObj "string \<Rightarrow> json option"

datatype body =
    JArray "json list"
  | JValue json

type_synonym launch = "string \<rightharpoonup> json"

text \<open>
  The exceptions that can travel through the \<^verbatim>\<open>try\<close> block of
  \<^verbatim>\<open>_async_update_data\<close>. \<open>is_ClientError\<close> is
  \<^verbatim>\<open>isinstance(err, aiohttp.ClientError)\<close>: connection errors, the
  \<^verbatim>\<open>ClientResponseError\<close> of \<^verbatim>\<open>raise_for_status\<close> (with the status code) and
  its subclass \<^verbatim>\<open>ContentTypeError\<close>, raised by \<^verbatim>\<open>response.json()\<close> when the
  content type is not JSON.
\<close>

datatype exn =
    TimeoutError
  | ClientConnectionError
  | ClientResponseError nat
  | ContentTypeError
  | JSONDecodeError
  | TypeError
  | AttributeError

fun is_ClientError :: "exn \<Rightarrow> bool" where
  "is_ClientError ClientConnectionError = True"
| "is_ClientError (ClientResponseError code) = True"
| "is_ClientError ContentTypeError = True"
| "is_ClientError TimeoutError = False"
| "is_ClientError JSONDecodeError = False"
| "is_ClientError TypeError = False"
| "is_ClientError AttributeError = False"

text \<open>
  \<^verbatim>\<open>raise UpdateFailed(f"<prefix>{err}") from err\<close>: the message is the prefix followed
  by the text of \<open>err\<close>, and \<open>err\<close> is attached as the cause.
\<close>

datatype update_failed = UpdateFailed string exn

subsection \<open>Dictionary access and comparison\<close>

text \<open>\<^verbatim>\<open>d.get(key)\<close> and \<^verbatim>\<open>d.get(key, default)\<close>.\<close>

definition get :: "launch \<Rightarrow> string \<Rightarrow> json" where
  "get d key = (case d key of None \<Rightarrow> JNull | Some v \<Rightarrow> v)"

definition get_default :: "launch \<Rightarrow> string \<Rightarrow> json \<Rightarrow> json" where
  "get_default d key dflt = (case d key of None \<Rightarrow> dflt | Some v \<Rightarrow> v)"

text \<open>\<^verbatim>\<open>v == s\<close> for a JSON value \<open>v\<close> and a \<^verbatim>\<open>str\<close> \<open>s\<close>: only an equal string is equal.\<close>

fun eq_str :: "json \<Rightarrow> string \<Rightarrow> bool" where
  "eq_str (JStr t) s = (t = s)"
| "eq_str JNull s = False"
| "eq_str (JBool b) s = False"
| "eq_str (JNum n) s = False"
| "eq_str (JObj d) s = False"

subsection \<open>Filter: the list comprehension\<close>

text \<open>
  \<^verbatim>\<open>[launch for launch in data if launch.get("shortName") == self.station_short_name]\<close>.
  Every element is asked for \<^verbatim>\<open>.get\<close>: an element that is not a dict raises
  \<^verbatim>\<open>AttributeError\<close>.
\<close>

fun filter_launches :: "string \<Rightarrow> json list \<Rightarrow> exn + launch list" where
  "filter_launches s [] = Inr []"
| "filter_launches s (JObj launch # xs) =
     (case filter_launches s xs of
        Inl e \<Rightarrow> Inl e
      | Inr ys \<Rightarrow> Inr (if eq_str (get launch ''shortName'') s then launch # ys else ys))"
| "filter_launches s (x # xs) = Inl AttributeError"

text \<open>
  \<^verbatim>\<open>for launch in data\<close> when \<open>data\<close> is not a list: a dict iterates over its keys
  and a string over its characters, which are strings and have no \<^verbatim>\<open>.get\<close>; an
  empty dict or string gives no element at all; \<^verbatim>\<open>None\<close>, a boolean and a number
  are not iterable.
\<close>

fun station_launches :: "string \<Rightarrow> body \<Rightarrow> exn + launch list" where
  "station_launches s (JArray xs) = filter_launches s xs"
| "station_launches s (JValue (JObj d)) = (if d = Map.empty then Inr [] else Inl AttributeError)"
| "station_launches s (JValue (JStr t)) = (if t = [] then Inr [] else Inl AttributeError)"
| "station_launches s (JValue JNull) = Inl TypeError"
| "station_launches s (JValue (JBool b)) = Inl TypeError"
| "station_launches s (JValue (JNum n)) = Inl TypeError"

subsection \<open>Sort: most recent first\<close>

text \<open>
  \<^verbatim>\<open>station_launches.sort(key=lambda x: x.get("launchDate", ""), reverse=True)\<close>.
  Python's sort is stable, and with \<^verbatim>\<open>reverse=True\<close> it still keeps elements with
  equal keys in their original order: the list is reversed, sorted ascending and
  reversed again. Keys are compared with \<^verbatim>\<open><\<close>: two strings compare, two numbers
  (booleans are the integers 0 and 1) compare, and every other pair of JSON values
  raises \<^verbatim>\<open>TypeError\<close>. A list of fewer than two elements is not compared at all.
\<close>

definition launchDate_key :: "launch \<Rightarrow> json" where
  "launchDate_key x = get_default x ''launchDate'' (JStr [])"

fun is_str :: "json \<Rightarrow> bool" where
  "is_str (JStr t) = True"
| "is_str v = False"

fun str_val :: "json \<Rightarrow> string" where
  "str_val (JStr t) = t"
| "str_val v = []"

fun is_num :: "json \<Rightarrow> bool" where
  "is_num (JNum n) = True"
| "is_num (JBool b) = True"
| "is_num v = False"

fun num_val :: "json \<Rightarrow> int" where
  "num_val (JNum n) = n"
| "num_val (JBool b) = (if b then 1 else 0)"
| "num_val v = 0"

definition sort_reverse :: "('a \<Rightarrow> json) \<Rightarrow> 'a list \<Rightarrow> exn + 'a list" where
  "sort_reverse key xs =
     (if length xs < 2 then Inr xs
      else if list_all (\<lambda>x. is_str (key x)) xs
        then Inr (rev (sort_key (\<lambda>x. str_val (key x)) (rev xs)))
      else if list_all (\<lambda>x. is_num (key x)) xs
        then Inr (rev (sort_key (\<lambda>x. num_val (key x)) (rev xs)))
      else Inl TypeError)"

text \<open>Lines 81 to 90: the filter, then the sort of what it kept.\<close>

definition select_launches :: "string \<Rightarrow> body \<Rightarrow> exn + launch list" where
  "select_launches s data =
     (case station_launches s data of
        Inl e \<Rightarrow> Inl e
      | Inr ls \<Rightarrow> sort_reverse launchDate_key ls)"

subsection \<open>One fetch attempt\<close>

text \<open>
  What the network does during one attempt, as the three calls inside
  \<^verbatim>\<open>async with async_timeout.timeout(10)\<close> see it:
  \<^verbatim>\<open>await self.session.get(...)\<close> raises (a connection, DNS or TLS failure is a
  \<^verbatim>\<open>ClientError\<close>; the timeout expiring is a \<^verbatim>\<open>TimeoutError\<close>) or returns a
  response with a status code; on that response \<^verbatim>\<open>await response.json()\<close> raises
  or returns the decoded body.
\<close>

datatype http =
    GetRaises exn
  | Response nat "exn + body"

text \<open>
  The body of the \<^verbatim>\<open>try\<close>. \<^verbatim>\<open>response.raise_for_status()\<close> raises
  \<^verbatim>\<open>ClientResponseError\<close> for a status of 400 or more.
\<close>

definition try_block :: "string \<Rightarrow> http \<Rightarrow> exn + launch list" where
  "try_block s h =
     (case h of
        GetRaises e \<Rightarrow> Inl e
      | Response status js \<Rightarrow>
          if 400 \<le> status then Inl (ClientResponseError status)
          else (case js of
                  Inl e \<Rightarrow> Inl e
                | Inr data \<Rightarrow> select_launches s data))"

text \<open>
  \<^verbatim>\<open>_async_update_data\<close>: the two \<^verbatim>\<open>except\<close> clauses turn every exception into
  \<^verbatim>\<open>UpdateFailed\<close>, a \<^verbatim>\<open>ClientError\<close> first, any other \<^verbatim>\<open>Exception\<close> second.
\<close>

definition async_update_data :: "string \<Rightarrow> http \<Rightarrow> update_failed + launch list" where
  "async_update_data s h =
     (case try_block s h of
        Inr launches \<Rightarrow> Inr launches
      | Inl err \<Rightarrow>
          if is_ClientError err
          then Inl (UpdateFailed ''Error fetching data from RNLI API: '' err)
          else Inl (UpdateFailed ''Unknown error parsing RNLI API data: '' err))"

subsection \<open>The sensor: state and attributes\<close>

text \<open>
  \<^verbatim>\<open>coordinator.data\<close> is \<^verbatim>\<open>None\<close> until a refresh has succeeded, then the list the
  last successful \<^verbatim>\<open>_async_update_data\<close> returned. Both \<^verbatim>\<open>None\<close> and the empty
  list are false in \<^verbatim>\<open>if self.coordinator.data and len(self.coordinator.data) > 0\<close>.

  \<open>state\<close> takes the standard library's date parser as a parameter: \<open>isoformat d\<close> is
  \<^verbatim>\<open>datetime.fromisoformat(d).isoformat()\<close> for a string \<open>d\<close>, and \<open>None\<close> where
  \<^verbatim>\<open>fromisoformat\<close> raises \<^verbatim>\<open>ValueError\<close>. For an argument that is not a string
  \<^verbatim>\<open>fromisoformat\<close> raises \<^verbatim>\<open>TypeError\<close>, which \<^verbatim>\<open>except ValueError\<close> does not
  catch.
\<close>

definition state :: "(string \<Rightarrow> string option) \<Rightarrow> launch list option \<Rightarrow> exn + string" where
  "state isoformat data =
     (case data of
        None \<Rightarrow> Inr ''unknown''
      | Some [] \<Rightarrow> Inr ''unknown''
      | Some (latest_launch # rest) \<Rightarrow>
          (case get latest_launch ''launchDate'' of
             JStr d \<Rightarrow> (case isoformat d of Some t \<Rightarrow> Inr t | None \<Rightarrow> Inr ''unknown'')
           | v \<Rightarrow> Inl TypeError))"

definition ATTRIBUTION :: string where
  "ATTRIBUTION = ''Data provided by RNLI Web API''"

text \<open>\<^verbatim>\<open>homeassistant.const.ATTR_ATTRIBUTION\<close>, the framework's name of the attribution key.\<close>

definition ATTR_ATTRIBUTION :: string where
  "ATTR_ATTRIBUTION = ''attribution''"

text \<open>The keys of the latest launch that the loop over its items does not copy.\<close>

definition known_fields :: "string list" where
  "known_fields = [''id'', ''lifeboat_IdNo'', ''title'', ''website'', ''shortName'', ''launchDate'']"

text \<open>
  The loop \<^verbatim>\<open>for key, value in latest_launch.items()\<close>, on the items of the dict in
  their order: \<^verbatim>\<open>attributes[key] = value\<close> for every key that is not a known field.
\<close>

definition copy_items :: "(string \<times> json) list \<Rightarrow> (string \<rightharpoonup> json) \<Rightarrow> (string \<rightharpoonup> json)" where
  "copy_items items attributes =
     foldl (\<lambda>a (key, value). if key \<notin> set known_fields then a(key \<mapsto> value) else a)
       attributes items"

text \<open>
  \<^verbatim>\<open>extra_state_attributes\<close>. The attributes are a dict from names to values: strings
  are \<open>JStr\<close>, and the \<^verbatim>\<open>None\<close> that \<^verbatim>\<open>.get\<close> returns for a missing key is
  \<open>JNull\<close>. The loop runs after the four fixed assignments. A launch is a map, which has
  no order of items; what the loop does to the attributes is the same for every order
  (\<open>copy_items_override\<close> below): they are overridden by the launch restricted to the keys
  that are not known fields.
\<close>

definition extra_state_attributes :: "string \<Rightarrow> launch list option \<Rightarrow> (string \<rightharpoonup> json)" where
  "extra_state_attributes station_short_name data =
     (let attributes = [ATTR_ATTRIBUTION \<mapsto> JStr ATTRIBUTION,
                        ''station_monitored'' \<mapsto> JStr station_short_name]
      in case data of
           Some (latest_launch # rest) \<Rightarrow>
             (attributes(''launch_id'' \<mapsto> get latest_launch ''id'',
                         ''lifeboat_id'' \<mapsto> get latest_launch ''lifeboat_IdNo'',
                         ''station_title'' \<mapsto> get latest_launch ''title'',
                         ''station_website'' \<mapsto> get latest_launch ''website''))
             ++ (latest_launch |` {key. key \<notin> set known_fields})
         | _ \<Rightarrow>
             attributes(''last_launch_info'' \<mapsto> JStr ''No recent launches found for this station.''))"

subsection \<open>The coordinator's cache\<close>

text \<open>
  The source defines only \<^verbatim>\<open>_async_update_data\<close>. The refresh that calls it, keeps
  the data and records the error is inherited from the framework's
  \<^verbatim>\<open>DataUpdateCoordinator\<close>, which is not among the source files; the following
  definitions take it from sections 3 and 4.3 of the specification.
\<close>

text \<open>
  Modelled from the spec: the cache entry, absent from the source files. It holds the
  data, an ordered sequence of launch records, possibly empty; the time of the last
  success; and the last error, if any.
\<close>

record cache_entry =
  data :: "launch list"
  lastSuccessTime :: "nat option"
  lastError :: "update_failed option"

text \<open>
  Modelled from the spec: \<^verbatim>\<open>refresh_now()\<close>, absent from the source files. It invokes
  the fetcher, then the filter and sort (together the source's \<^verbatim>\<open>_async_update_data\<close>);
  on success it replaces the data, clears the last error and updates the time of the
  last success; on any error it leaves the prior data intact and records the error.
\<close>

definition refresh_now :: "string \<Rightarrow> nat \<Rightarrow> http \<Rightarrow> cache_entry \<Rightarrow> cache_entry" where
  "refresh_now s now h c =
     (case async_update_data s h of
        Inr launches \<Rightarrow>
          c\<lparr>data := launches, lastSuccessTime := Some now, lastError := None\<rparr>
      | Inl err \<Rightarrow> c\<lparr>lastError := Some err\<rparr>)"

text \<open>
  Modelled from the spec: \<^verbatim>\<open>get_cached()\<close>, absent from the source files: a read of
  the current snapshot.
\<close>

definition get_cached :: "cache_entry \<Rightarrow> cache_entry" where
  "get_cached c = c"

subsection \<open>Example records\<close>

text \<open>The two launches of station ABC in the end-to-end example, and one without a date.\<close>

definition jan_launch :: launch where
  "jan_launch = [''shortName'' \<mapsto> JStr ''ABC'', ''title'' \<mapsto> JStr ''A Station'',
                 ''launchDate'' \<mapsto> JStr ''2024-01-01T10:00:00+00:00'', ''id'' \<mapsto> JStr ''1'']"

definition feb_launch :: launch where
  "feb_launch = [''shortName'' \<mapsto> JStr ''ABC'', ''title'' \<mapsto> JStr ''A Station'',
                 ''launchDate'' \<mapsto> JStr ''2024-02-01T09:00:00+00:00'', ''id'' \<mapsto> JStr ''2'']"

definition undated_launch :: launch where
  "undated_launch = [''shortName'' \<mapsto> JStr ''ABC'', ''id'' \<mapsto> JStr ''3'']"

section \<open>Properties\<close>

subsection \<open>Auxiliary facts\<close>

lemma launchDate_key_cases:
  "launchDate_key l = (case l ''launchDate'' of None \<Rightarrow> JStr [] | Some v \<Rightarrow> v)"
  by (simp add: launchDate_key_def get_default_def)

lemma eq_str_get: "eq_str (get l k) s \<longleftrightarrow> l k = Some (JStr s)"
  by (cases "l k"; cases "the (l k)") (auto simp: get_def)

lemma filter_launches_objects:
  "filter_launches s (map JObj ls) = Inr (filter (\<lambda>l. l ''shortName'' = Some (JStr s)) ls)"
  by (induction ls) (simp_all add: eq_str_get)

lemma filter_launches_selected:
  "filter_launches s xs = Inr ys \<Longrightarrow> l \<in> set ys \<Longrightarrow> l ''shortName'' = Some (JStr s)"
proof (induction s xs arbitrary: ys rule: filter_launches.induct)
  case (1 s)
  then show ?case by simp
next
  case (2 s launch xs)
  then show ?case
    by (auto simp: eq_str_get split: sum.splits if_splits)
qed simp_all

lemma filter_launches_error:
  "filter_launches s xs = Inl e \<Longrightarrow> e = AttributeError"
  by (induction s xs rule: filter_launches.induct) (auto split: sum.splits)

lemma station_launches_selected:
  "station_launches s b = Inr ys \<Longrightarrow> l \<in> set ys \<Longrightarrow> l ''shortName'' = Some (JStr s)"
  by (cases "(s, b)" rule: station_launches.cases)
     (auto dest: filter_launches_selected split: if_splits)

lemma station_launches_error:
  "station_launches s b = Inl e \<Longrightarrow> e = TypeError \<or> e = AttributeError"
  by (cases "(s, b)" rule: station_launches.cases)
     (auto dest: filter_launches_error split: if_splits)

lemma sort_reverse_set:
  "sort_reverse key xs = Inr ys \<Longrightarrow> set ys = set xs"
  by (auto simp: sort_reverse_def split: if_splits)

lemma sort_reverse_error:
  "sort_reverse key xs = Inl e \<Longrightarrow> e = TypeError"
  by (auto simp: sort_reverse_def split: if_splits)

lemma select_launches_selected:
  "select_launches s b = Inr ys \<Longrightarrow> l \<in> set ys \<Longrightarrow> l ''shortName'' = Some (JStr s)"
  by (auto simp: select_launches_def split: sum.splits
           dest: sort_reverse_set station_launches_selected)

lemma select_launches_error:
  "select_launches s b = Inl e \<Longrightarrow> e = TypeError \<or> e = AttributeError"
  by (auto simp: select_launches_def split: sum.splits
           dest: sort_reverse_error station_launches_error)

lemma try_block_selected:
  "try_block s h = Inr ys \<Longrightarrow> l \<in> set ys \<Longrightarrow> l ''shortName'' = Some (JStr s)"
  by (auto simp: try_block_def split: http.splits sum.splits if_splits
           dest: select_launches_selected)

lemma async_update_data_Inr:
  "async_update_data s h = Inr ys \<longleftrightarrow> try_block s h = Inr ys"
  by (auto simp: async_update_data_def split: sum.splits)

text \<open>
  The loop of \<^verbatim>\<open>extra_state_attributes\<close> over the items of a dict, whose keys are
  distinct, is the override that the definition uses.
\<close>

lemma copy_items_override:
  "distinct (map fst items) \<Longrightarrow>
   copy_items items attributes = attributes ++ (map_of items |` {key. key \<notin> set known_fields})"
proof (induction items arbitrary: attributes)
  case Nil
  then show ?case
    by (simp add: copy_items_def)
next
  case (Cons kv items)
  obtain k v where kv: "kv = (k, v)"
    by (cases kv)
  from Cons.prems kv have fresh: "map_of items k = None" and d: "distinct (map fst items)"
    by (auto simp: map_of_eq_None_iff)
  let ?a = "if k \<notin> set known_fields then attributes(k \<mapsto> v) else attributes"
  have "copy_items (kv # items) attributes = copy_items items ?a"
    by (simp add: copy_items_def kv)
  also have "\<dots> = ?a ++ (map_of items |` {key. key \<notin> set known_fields})"
    using d by (rule Cons.IH)
  also have "\<dots> = attributes ++ (map_of (kv # items) |` {key. key \<notin> set known_fields})"
    using fresh by (auto simp: kv map_add_def restrict_map_def fun_eq_iff split: option.splits)
  finally show ?case .
qed

text \<open>With string keys the sort never raises; a list of fewer than two is its own sort.\<close>

lemma sort_reverse_strings:
  assumes "list_all (\<lambda>x. is_str (key x)) xs"
  shows "sort_reverse key xs = Inr (rev (sort_key (\<lambda>x. str_val (key x)) (rev xs)))"
proof (cases "length xs < 2")
  case True
  then consider "xs = []" | x where "xs = [x]"
    by (cases xs; cases "tl xs") auto
  then show ?thesis
    by cases (simp_all add: sort_reverse_def)
next
  case False
  with assms show ?thesis
    by (simp add: sort_reverse_def)
qed

lemma sorted_wrt_rev_sort_key:
  "sorted_wrt (\<lambda>a b. f b \<le> f a) (rev (sort_key f xs))"
proof -
  have "sorted (map f (sort_key f xs))"
    by simp
  then have "sorted_wrt (\<lambda>a b. f a \<le> f b) (sort_key f xs)"
    by (simp add: sorted_map)
  then show ?thesis
    by (simp add: sorted_wrt_rev)
qed

lemma filter_rev_sort_key_rev:
  "filter (\<lambda>y. f y = k) (rev (sort_key f (rev xs))) = filter (\<lambda>y. f y = k) xs"
  by (simp add: sort_key_stable rev_filter[symmetric])

subsection \<open>Filter and sort\<close>

text \<open>
  Where the step does select and order. If each record of station \<open>s\<close> has a
  \<open>launchDate\<close> that is absent or a string, the filter and sort step returns exactly
  the records whose \<open>shortName\<close> is the string \<open>s\<close> (as a multiset), ordered by
  \<open>launchDate\<close> descending, a missing \<open>launchDate\<close> compared as the empty string, so that
  after a record without a date only records with an empty key follow; records with
  equal keys keep their order of the input.
\<close>

lemma select_launches_sorted_stable:
  assumes typed: "\<forall>l\<in>set ls. l ''shortName'' = Some (JStr s) \<longrightarrow>
             l ''launchDate'' = None \<or> (\<exists>d. l ''launchDate'' = Some (JStr d))"
  shows "\<exists>ys. select_launches s (JArray (map JObj ls)) = Inr ys
           \<and> mset ys = mset (filter (\<lambda>l. l ''shortName'' = Some (JStr s)) ls)
           \<and> sorted_wrt (\<lambda>a b. str_val (launchDate_key b) \<le> str_val (launchDate_key a)) ys
           \<and> (\<forall>l\<in>set ys. l ''launchDate'' = None \<longrightarrow> launchDate_key l = JStr [])
           \<and> sorted_wrt (\<lambda>a b. a ''launchDate'' = None \<longrightarrow> launchDate_key b = JStr []) ys
           \<and> (\<forall>d. filter (\<lambda>l. str_val (launchDate_key l) = d) ys
                  = filter (\<lambda>l. str_val (launchDate_key l) = d)
                      (filter (\<lambda>l. l ''shortName'' = Some (JStr s)) ls))"
proof -
  let ?sel = "filter (\<lambda>l. l ''shortName'' = Some (JStr s)) ls"
  let ?f = "\<lambda>l. str_val (launchDate_key l)"
  let ?ys = "rev (sort_key ?f (rev ?sel))"
  have strs: "\<forall>l\<in>set ?sel. \<exists>d. launchDate_key l = JStr d"
    using typed by (auto simp: launchDate_key_cases)
  then have "list_all (\<lambda>l. is_str (launchDate_key l)) ?sel"
    by (auto simp: list_all_iff)
  then have "sort_reverse launchDate_key ?sel = Inr ?ys"
    by (rule sort_reverse_strings)
  then have 1: "select_launches s (JArray (map JObj ls)) = Inr ?ys"
    by (simp add: select_launches_def filter_launches_objects)
  have 2: "mset ?ys = mset ?sel"
    by simp
  have 3: "sorted_wrt (\<lambda>a b. ?f b \<le> ?f a) ?ys"
    by (rule sorted_wrt_rev_sort_key)
  have 4: "\<forall>l\<in>set ?ys. l ''launchDate'' = None \<longrightarrow> launchDate_key l = JStr []"
    by (simp add: launchDate_key_cases)
  have "a ''launchDate'' = None \<longrightarrow> launchDate_key b = JStr []"
    if "a \<in> set ?ys" "b \<in> set ?ys" "?f b \<le> ?f a" for a b
  proof
    assume "a ''launchDate'' = None"
    then have "?f a = []"
      by (simp add: launchDate_key_cases)
    with that(3) have "?f b = []"
      by simp
    moreover from that(2) strs obtain d where "launchDate_key b = JStr d"
      by auto
    ultimately show "launchDate_key b = JStr []"
      by simp
  qed
  with 3 have 5: "sorted_wrt (\<lambda>a b. a ''launchDate'' = None \<longrightarrow> launchDate_key b = JStr []) ?ys"
    by (rule sorted_wrt_mono_rel[rotated])
  have 6: "\<forall>d. filter (\<lambda>l. ?f l = d) ?ys = filter (\<lambda>l. ?f l = d) ?sel"
    by (simp add: filter_rev_sort_key_rev)
  from 1 2 3 4 5 6 show ?thesis
    by blast
qed

text \<open>
  The three launches of station ABC, January, one without a date, February, come out as
  February, January, and the one without a date last.
\<close>

lemma select_launches_sorted_stable_example:
  "jan_launch ''launchDate'' = Some (JStr ''2024-01-01T10:00:00+00:00'')
   \<and> undated_launch ''launchDate'' = None
   \<and> feb_launch ''launchDate'' = Some (JStr ''2024-02-01T09:00:00+00:00'')
   \<and> select_launches ''ABC'' (JArray (map JObj [jan_launch, undated_launch, feb_launch]))
       = Inr [feb_launch, jan_launch, undated_launch]
   \<and> (\<exists>ys. select_launches ''ABC'' (JArray (map JObj [jan_launch, undated_launch, feb_launch])) = Inr ys
           \<and> mset ys = mset (filter (\<lambda>l. l ''shortName'' = Some (JStr ''ABC''))
                               [jan_launch, undated_launch, feb_launch])
           \<and> sorted_wrt (\<lambda>a b. str_val (launchDate_key b) \<le> str_val (launchDate_key a)) ys
           \<and> (\<forall>l\<in>set ys. l ''launchDate'' = None \<longrightarrow> launchDate_key l = JStr [])
           \<and> sorted_wrt (\<lambda>a b. a ''launchDate'' = None \<longrightarrow> launchDate_key b = JStr []) ys
           \<and> (\<forall>d. filter (\<lambda>l. str_val (launchDate_key l) = d) ys
                  = filter (\<lambda>l. str_val (launchDate_key l) = d)
                      (filter (\<lambda>l. l ''shortName'' = Some (JStr ''ABC''))
                         [jan_launch, undated_launch, feb_launch])))"
proof -
  have dates: "jan_launch ''launchDate'' = Some (JStr ''2024-01-01T10:00:00+00:00'')"
    "undated_launch ''launchDate'' = None"
    "feb_launch ''launchDate'' = Some (JStr ''2024-02-01T09:00:00+00:00'')"
    by (simp_all add: jan_launch_def feb_launch_def undated_launch_def)
  then have h: "\<forall>l\<in>set [jan_launch, undated_launch, feb_launch].
       l ''shortName'' = Some (JStr ''ABC'') \<longrightarrow>
       l ''launchDate'' = None \<or> (\<exists>d. l ''launchDate'' = Some (JStr d))"
    by simp
  have "select_launches ''ABC'' (JArray (map JObj [jan_launch, undated_launch, feb_launch]))
       = Inr [feb_launch, jan_launch, undated_launch]"
    by (simp add: select_launches_def eq_str_get sort_reverse_def launchDate_key_cases
          jan_launch_def feb_launch_def undated_launch_def)
  with dates select_launches_sorted_stable[OF h] show ?thesis
    by (intro conjI)
qed

text \<open>
  C1 says that for every list of launch records the step returns the records of the
  station, most recent first, a record without a date last. The code does not do so: on
  two launches of station ABC, the first with \<^verbatim>\<open>"launchDate": null\<close>, the key of the
  first is \<^verbatim>\<open>None\<close> (the default \<^verbatim>\<open>""\<close> of \<^verbatim>\<open>x.get("launchDate", "")\<close> is for an
  absent key only), \<^verbatim>\<open>None\<close> and a string do not compare, and the sort raises
  \<^verbatim>\<open>TypeError\<close>: the step returns no record and the update fails.
\<close>

theorem select_launches_null_launchDate_raises:
  "select_launches ''ABC''
     (JArray [JObj [''shortName'' \<mapsto> JStr ''ABC'', ''launchDate'' \<mapsto> JNull],
              JObj [''shortName'' \<mapsto> JStr ''ABC'',
                    ''launchDate'' \<mapsto> JStr ''2024-02-01T09:00:00+00:00'']])
   = Inl TypeError
   \<and> async_update_data ''ABC''
        (Response 200 (Inr
          (JArray [JObj [''shortName'' \<mapsto> JStr ''ABC'', ''launchDate'' \<mapsto> JNull],
                   JObj [''shortName'' \<mapsto> JStr ''ABC'',
                         ''launchDate'' \<mapsto> JStr ''2024-02-01T09:00:00+00:00'']])))
   = Inl (UpdateFailed ''Unknown error parsing RNLI API data: '' TypeError)"
  by (simp add: async_update_data_def try_block_def select_launches_def eq_str_get
        sort_reverse_def launchDate_key_cases)

text \<open>
  C9. A record that lacks the \<open>shortName\<close> key is never selected, whatever the station:
  neither by the filter, on any body, nor in what \<^verbatim>\<open>_async_update_data\<close> returns.
\<close>

theorem missing_shortName_never_selected:
  assumes "l ''shortName'' = None"
  shows "(station_launches s b = Inr ys \<longrightarrow> l \<notin> set ys)
       \<and> (async_update_data s h = Inr zs \<longrightarrow> l \<notin> set zs)"
  using assms
  by (auto simp: async_update_data_Inr dest: station_launches_selected try_block_selected)

text \<open>
  The theorem at a body of two records, the first without \<open>shortName\<close>: the filter
  and the whole update return the second record only.
\<close>

theorem missing_shortName_never_selected_witness:
  "[''id'' \<mapsto> JStr ''9''] ''shortName'' = None
   \<and> station_launches ''ABC'' (JArray [JObj [''id'' \<mapsto> JStr ''9''], JObj jan_launch]) = Inr [jan_launch]
   \<and> [''id'' \<mapsto> JStr ''9''] \<notin> set [jan_launch]
   \<and> async_update_data ''ABC''
        (Response 200 (Inr (JArray [JObj [''id'' \<mapsto> JStr ''9''], JObj jan_launch]))) = Inr [jan_launch]"
proof -
  have h: "[''id'' \<mapsto> JStr ''9''] ''shortName'' = None"
    by simp
  have f: "station_launches ''ABC'' (JArray [JObj [''id'' \<mapsto> JStr ''9''], JObj jan_launch]) = Inr [jan_launch]"
    by (simp add: eq_str_get jan_launch_def)
  have a: "async_update_data ''ABC''
        (Response 200 (Inr (JArray [JObj [''id'' \<mapsto> JStr ''9''], JObj jan_launch]))) = Inr [jan_launch]"
    by (simp add: async_update_data_def try_block_def select_launches_def sort_reverse_def
          eq_str_get jan_launch_def)
  from missing_shortName_never_selected[of "[''id'' \<mapsto> JStr ''9'']" "''ABC''"
      "JArray [JObj [''id'' \<mapsto> JStr ''9''], JObj jan_launch]" "[jan_launch]"
      "Response 200 (Inr (JArray [JObj [''id'' \<mapsto> JStr ''9''], JObj jan_launch]))" "[jan_launch]",
      OF h] f a
  have "[''id'' \<mapsto> JStr ''9''] \<notin> set [jan_launch]"
    by blast
  with h f a show ?thesis
    by blast
qed

subsection \<open>Failures of one attempt\<close>

text \<open>
  C3, as amended. A failed attempt raises the one exception \<^verbatim>\<open>UpdateFailed\<close>, with the
  original exception as its cause and one of two messages: ``Error fetching data from
  RNLI API'' exactly when the cause is an \<^verbatim>\<open>aiohttp.ClientError\<close> (a connection, DNS
  or TLS failure; a status of 400 or more), and ``Unknown error parsing RNLI API data''
  for every other exception: the timeout, a body that is not valid JSON, and the
  \<^verbatim>\<open>TypeError\<close> or \<^verbatim>\<open>AttributeError\<close> of a body that is not an array of objects.
  So a timeout and a parse failure are told apart from a transport failure by the
  message, and from each other, as a transport failure from a bad status, only by the
  attached cause.
\<close>

theorem update_failed_two_messages:
  "(async_update_data s h = Inl u \<longrightarrow>
      (\<exists>err. try_block s h = Inl err \<and>
         u = UpdateFailed (if is_ClientError err then ''Error fetching data from RNLI API: ''
                           else ''Unknown error parsing RNLI API data: '') err))
   \<and> async_update_data s (GetRaises ClientConnectionError)
       = Inl (UpdateFailed ''Error fetching data from RNLI API: '' ClientConnectionError)
   \<and> (400 \<le> status \<longrightarrow> async_update_data s (Response status js)
       = Inl (UpdateFailed ''Error fetching data from RNLI API: '' (ClientResponseError status)))
   \<and> async_update_data s (GetRaises TimeoutError)
       = Inl (UpdateFailed ''Unknown error parsing RNLI API data: '' TimeoutError)
   \<and> (code < 400 \<longrightarrow> async_update_data s (Response code (Inl TimeoutError))
       = Inl (UpdateFailed ''Unknown error parsing RNLI API data: '' TimeoutError))
   \<and> (code < 400 \<longrightarrow> async_update_data s (Response code (Inl JSONDecodeError))
       = Inl (UpdateFailed ''Unknown error parsing RNLI API data: '' JSONDecodeError))
   \<and> (code < 400 \<and> select_launches s b = Inl e \<longrightarrow>
        (e = TypeError \<or> e = AttributeError) \<and>
        async_update_data s (Response code (Inr b))
          = Inl (UpdateFailed ''Unknown error parsing RNLI API data: '' e))"
proof -
  have 1: "async_update_data s h = Inl u \<longrightarrow>
      (\<exists>err. try_block s h = Inl err \<and>
         u = UpdateFailed (if is_ClientError err then ''Error fetching data from RNLI API: ''
                           else ''Unknown error parsing RNLI API data: '') err)"
    by (auto simp: async_update_data_def split: sum.splits if_splits)
  have 2: "code < 400 \<and> select_launches s b = Inl e \<longrightarrow>
        (e = TypeError \<or> e = AttributeError) \<and>
        async_update_data s (Response code (Inr b))
          = Inl (UpdateFailed ''Unknown error parsing RNLI API data: '' e)"
    by (auto simp: async_update_data_def try_block_def dest: select_launches_error)
  have 3: "400 \<le> status \<longrightarrow> async_update_data s (Response status js)
       = Inl (UpdateFailed ''Error fetching data from RNLI API: '' (ClientResponseError status))"
    by (simp add: async_update_data_def try_block_def)
  have 4: "code < 400 \<longrightarrow> async_update_data s (Response code (Inl TimeoutError))
       = Inl (UpdateFailed ''Unknown error parsing RNLI API data: '' TimeoutError)"
    by (simp add: async_update_data_def try_block_def)
  have 5: "code < 400 \<longrightarrow> async_update_data s (Response code (Inl JSONDecodeError))
       = Inl (UpdateFailed ''Unknown error parsing RNLI API data: '' JSONDecodeError)"
    by (simp add: async_update_data_def try_block_def)
  have 6: "async_update_data s (GetRaises ClientConnectionError)
       = Inl (UpdateFailed ''Error fetching data from RNLI API: '' ClientConnectionError)"
    by (simp add: async_update_data_def try_block_def)
  have 7: "async_update_data s (GetRaises TimeoutError)
       = Inl (UpdateFailed ''Unknown error parsing RNLI API data: '' TimeoutError)"
    by (simp add: async_update_data_def try_block_def)
  from 1 2 3 4 5 6 7 show ?thesis
    by blast
qed

text \<open>
  The theorem at a 404 response, at a response whose body is not valid JSON and at the
  body \<^verbatim>\<open>null\<close>.
\<close>

theorem update_failed_two_messages_witness:
  "async_update_data ''ABC'' (Response 404 (Inr (JArray [])))
      = Inl (UpdateFailed ''Error fetching data from RNLI API: '' (ClientResponseError 404))
   \<and> try_block ''ABC'' (Response 404 (Inr (JArray []))) = Inl (ClientResponseError 404)
   \<and> async_update_data ''ABC'' (Response 200 (Inl JSONDecodeError))
      = Inl (UpdateFailed ''Unknown error parsing RNLI API data: '' JSONDecodeError)
   \<and> select_launches ''ABC'' (JValue JNull) = Inl TypeError
   \<and> async_update_data ''ABC'' (Response 200 (Inr (JValue JNull)))
      = Inl (UpdateFailed ''Unknown error parsing RNLI API data: '' TypeError)"
  using update_failed_two_messages[of "''ABC''" "Response 404 (Inr (JArray []))"
      "UpdateFailed ''Error fetching data from RNLI API: '' (ClientResponseError 404)"
      404 "Inr (JArray [])" 200 "JValue JNull" TypeError]
  by (simp add: select_launches_def try_block_def)

text \<open>
  C3 as stated fails. The body \<^verbatim>\<open>{}\<close> is not an array of objects, yet the attempt
  succeeds with no launches: iterating over an empty dict yields nothing. And there are
  not four kinds of error: a timeout and a body that is not valid JSON raise the same
  exception with the same message prefix.
\<close>

theorem four_error_kinds_counterexample:
  "async_update_data ''ABC'' (Response 200 (Inr (JValue (JObj Map.empty)))) = Inr []
   \<and> async_update_data ''ABC'' (GetRaises TimeoutError)
       = Inl (UpdateFailed ''Unknown error parsing RNLI API data: '' TimeoutError)
   \<and> async_update_data ''ABC'' (Response 200 (Inl JSONDecodeError))
       = Inl (UpdateFailed ''Unknown error parsing RNLI API data: '' JSONDecodeError)"
  by (simp add: async_update_data_def try_block_def select_launches_def sort_reverse_def)


subsection \<open>The sensor\<close>

text \<open>
  C2 says that rendering never throws and that a missing \<open>launchDate\<close> degrades the
  state to \<^verbatim>\<open>"unknown"\<close>. The code does not do so: a refresh can deliver a launch
  without \<open>launchDate\<close>, and on it \<^verbatim>\<open>state\<close> calls
  \<^verbatim>\<open>datetime.fromisoformat(None)\<close>, whose \<^verbatim>\<open>TypeError\<close> passes the
  \<^verbatim>\<open>except ValueError\<close>.
\<close>

theorem state_raises_without_launchDate:
  "async_update_data ''ABC'' (Response 200 (Inr (JArray [JObj undated_launch]))) = Inr [undated_launch]
   \<and> state isoformat (Some [undated_launch]) = Inl TypeError"
  by (simp add: async_update_data_def try_block_def select_launches_def sort_reverse_def
        eq_str_get undated_launch_def state_def get_def)

text \<open>
  C5. With empty data (or none yet) the state is \<^verbatim>\<open>"unknown"\<close> and the attributes are
  exactly the attribution, the monitored station and the note that no recent launches
  were found: no \<open>launch_id\<close>, \<open>lifeboat_id\<close>, \<open>station_title\<close> or
  \<open>station_website\<close>, and no other key.
\<close>

theorem empty_data_renders_unknown:
  "state isoformat (Some []) = Inr ''unknown''
   \<and> state isoformat None = Inr ''unknown''
   \<and> extra_state_attributes s (Some []) =
        [''attribution'' \<mapsto> JStr ''Data provided by RNLI Web API'',
         ''station_monitored'' \<mapsto> JStr s,
         ''last_launch_info'' \<mapsto> JStr ''No recent launches found for this station.'']
   \<and> extra_state_attributes s None = extra_state_attributes s (Some [])
   \<and> dom (extra_state_attributes s (Some [])) =
        {''attribution'', ''station_monitored'', ''last_launch_info''}
   \<and> extra_state_attributes s (Some []) ''launch_id'' = None
   \<and> extra_state_attributes s (Some []) ''lifeboat_id'' = None
   \<and> extra_state_attributes s (Some []) ''station_title'' = None
   \<and> extra_state_attributes s (Some []) ''station_website'' = None"
  by (auto simp: state_def extra_state_attributes_def ATTR_ATTRIBUTION_def ATTRIBUTION_def)

text \<open>The attributes of non-empty data, key by key: an item of the launch wins.\<close>

lemma attributes_lookup:
  "extra_state_attributes s (Some (l # rest)) k =
     (if k \<notin> set known_fields \<and> l k \<noteq> None then l k
      else [ATTR_ATTRIBUTION \<mapsto> JStr ATTRIBUTION,
            ''station_monitored'' \<mapsto> JStr s,
            ''launch_id'' \<mapsto> get l ''id'',
            ''lifeboat_id'' \<mapsto> get l ''lifeboat_IdNo'',
            ''station_title'' \<mapsto> get l ''title'',
            ''station_website'' \<mapsto> get l ''website''] k)"
  by (cases "l k") (simp_all add: extra_state_attributes_def map_add_def restrict_map_def del: fun_upd_apply)



text \<open>
  C6, as amended. With non-empty data the attributes contain every key and value of the
  first record whose key is not one of the six known fields, verbatim; and each of the
  names \<open>attribution\<close>, \<open>station_monitored\<close>, \<open>launch_id\<close>, \<open>lifeboat_id\<close>,
  \<open>station_title\<close> and \<open>station_website\<close> holds the attribution string, the
  configured station and the record's \<open>id\<close>, \<open>lifeboat_IdNo\<close>, \<open>title\<close> and
  \<open>website\<close>, unless the record has a field of that very name, whose value then
  stands under it.
\<close>

theorem attributes_of_latest_launch:
  "(l k = Some v \<and> k \<notin> set known_fields \<longrightarrow>
      extra_state_attributes s (Some (l # rest)) k = Some v)
   \<and> (l ''attribution'' = None \<longrightarrow>
      extra_state_attributes s (Some (l # rest)) ''attribution''
        = Some (JStr ''Data provided by RNLI Web API''))
   \<and> (l ''station_monitored'' = None \<longrightarrow>
      extra_state_attributes s (Some (l # rest)) ''station_monitored'' = Some (JStr s))
   \<and> (l ''launch_id'' = None \<longrightarrow>
      extra_state_attributes s (Some (l # rest)) ''launch_id'' = Some (get l ''id''))
   \<and> (l ''lifeboat_id'' = None \<longrightarrow>
      extra_state_attributes s (Some (l # rest)) ''lifeboat_id'' = Some (get l ''lifeboat_IdNo''))
   \<and> (l ''station_title'' = None \<longrightarrow>
      extra_state_attributes s (Some (l # rest)) ''station_title'' = Some (get l ''title''))
   \<and> (l ''station_website'' = None \<longrightarrow>
      extra_state_attributes s (Some (l # rest)) ''station_website'' = Some (get l ''website''))"
proof -
  have 1: "l k = Some v \<and> k \<notin> set known_fields \<longrightarrow>
      extra_state_attributes s (Some (l # rest)) k = Some v"
    by (simp add: attributes_lookup)
  have 2: "l ''attribution'' = None \<longrightarrow>
      extra_state_attributes s (Some (l # rest)) ''attribution''
        = Some (JStr ''Data provided by RNLI Web API'')"
    by (simp add: attributes_lookup ATTR_ATTRIBUTION_def ATTRIBUTION_def)
  have 3: "l ''station_monitored'' = None \<longrightarrow>
      extra_state_attributes s (Some (l # rest)) ''station_monitored'' = Some (JStr s)"
    by (simp add: attributes_lookup ATTR_ATTRIBUTION_def)
  have 4: "l ''launch_id'' = None \<longrightarrow>
      extra_state_attributes s (Some (l # rest)) ''launch_id'' = Some (get l ''id'')"
    by (simp add: attributes_lookup ATTR_ATTRIBUTION_def)
  have 5: "l ''lifeboat_id'' = None \<longrightarrow>
      extra_state_attributes s (Some (l # rest)) ''lifeboat_id'' = Some (get l ''lifeboat_IdNo'')"
    by (simp add: attributes_lookup ATTR_ATTRIBUTION_def)
  have 6: "l ''station_title'' = None \<longrightarrow>
      extra_state_attributes s (Some (l # rest)) ''station_title'' = Some (get l ''title'')"
    by (simp add: attributes_lookup ATTR_ATTRIBUTION_def)
  have 7: "l ''station_website'' = None \<longrightarrow>
      extra_state_attributes s (Some (l # rest)) ''station_website'' = Some (get l ''website'')"
    by (simp add: attributes_lookup ATTR_ATTRIBUTION_def)
  from 1 2 3 4 5 6 7 show ?thesis
    by (intro conjI)
qed

text \<open>
  The theorem at the February launch with one more field, \<open>lifeboat_class\<close>: the field
  is passed through and the six fixed names hold their values.
\<close>

theorem attributes_of_latest_launch_witness:
  "extra_state_attributes ''ABC'' (Some [feb_launch(''lifeboat_class'' \<mapsto> JStr ''Shannon''), jan_launch])
      ''lifeboat_class'' = Some (JStr ''Shannon'')
   \<and> extra_state_attributes ''ABC'' (Some [feb_launch(''lifeboat_class'' \<mapsto> JStr ''Shannon''), jan_launch])
      ''attribution'' = Some (JStr ''Data provided by RNLI Web API'')
   \<and> extra_state_attributes ''ABC'' (Some [feb_launch(''lifeboat_class'' \<mapsto> JStr ''Shannon''), jan_launch])
      ''station_monitored'' = Some (JStr ''ABC'')
   \<and> extra_state_attributes ''ABC'' (Some [feb_launch(''lifeboat_class'' \<mapsto> JStr ''Shannon''), jan_launch])
      ''launch_id'' = Some (JStr ''2'')
   \<and> extra_state_attributes ''ABC'' (Some [feb_launch(''lifeboat_class'' \<mapsto> JStr ''Shannon''), jan_launch])
      ''lifeboat_id'' = Some JNull
   \<and> extra_state_attributes ''ABC'' (Some [feb_launch(''lifeboat_class'' \<mapsto> JStr ''Shannon''), jan_launch])
      ''station_title'' = Some (JStr ''A Station'')
   \<and> extra_state_attributes ''ABC'' (Some [feb_launch(''lifeboat_class'' \<mapsto> JStr ''Shannon''), jan_launch])
      ''station_website'' = Some JNull"
  using attributes_of_latest_launch[of "feb_launch(''lifeboat_class'' \<mapsto> JStr ''Shannon'')"
      "''lifeboat_class''" "JStr ''Shannon''" "''ABC''" "[jan_launch]"]
  by (simp add: feb_launch_def known_fields_def get_def)

text \<open>
  C6 as stated fails: a launch of station ABC with the fields \<open>id\<close> and \<open>launch_id\<close>.
  A refresh for ABC delivers it as the first record of the data. The loop copies
  \<open>launch_id\<close> after the fixed assignment, so the attribute \<open>launch_id\<close> is the
  record's \<open>launch_id\<close>, not its \<open>id\<close>.
\<close>

theorem launch_id_overridden_by_field:
  "async_update_data ''ABC''
     (Response 200 (Inr (JArray
        [JObj [''shortName'' \<mapsto> JStr ''ABC'', ''id'' \<mapsto> JStr ''1'',
               ''launch_id'' \<mapsto> JStr ''7'']])))
     = Inr [[''shortName'' \<mapsto> JStr ''ABC'', ''id'' \<mapsto> JStr ''1'', ''launch_id'' \<mapsto> JStr ''7'']]
   \<and> get [''shortName'' \<mapsto> JStr ''ABC'', ''id'' \<mapsto> JStr ''1'', ''launch_id'' \<mapsto> JStr ''7'']
         ''id'' = JStr ''1''
   \<and> extra_state_attributes ''ABC''
         (Some [[''shortName'' \<mapsto> JStr ''ABC'', ''id'' \<mapsto> JStr ''1'',
                 ''launch_id'' \<mapsto> JStr ''7'']])
         ''launch_id'' = Some (JStr ''7'')"
proof -
  have "async_update_data ''ABC''
     (Response 200 (Inr (JArray
        [JObj [''shortName'' \<mapsto> JStr ''ABC'', ''id'' \<mapsto> JStr ''1'',
               ''launch_id'' \<mapsto> JStr ''7'']])))
     = Inr [[''shortName'' \<mapsto> JStr ''ABC'', ''id'' \<mapsto> JStr ''1'', ''launch_id'' \<mapsto> JStr ''7'']]"
    by (simp add: async_update_data_def try_block_def select_launches_def sort_reverse_def
          eq_str_get)
  moreover have
    "get [''shortName'' \<mapsto> JStr ''ABC'', ''id'' \<mapsto> JStr ''1'', ''launch_id'' \<mapsto> JStr ''7'']
         ''id'' = JStr ''1''"
    by (simp add: get_def)
  moreover have "extra_state_attributes ''ABC''
         (Some [[''shortName'' \<mapsto> JStr ''ABC'', ''id'' \<mapsto> JStr ''1'',
                 ''launch_id'' \<mapsto> JStr ''7'']])
         ''launch_id'' = Some (JStr ''7'')"
    by (simp add: attributes_lookup known_fields_def)
  ultimately show ?thesis
    by (intro conjI)
qed

text \<open>
  C10, as amended. With non-empty data the four keys \<open>launch_id\<close>, \<open>lifeboat_id\<close>,
  \<open>station_title\<close> and \<open>station_website\<close> are always present; the value of one is
  null when the first record has neither the corresponding field nor a field named
  like the attribute key itself.
\<close>

theorem fixed_keys_present:
  "{''launch_id'', ''lifeboat_id'', ''station_title'', ''station_website''}
      \<subseteq> dom (extra_state_attributes s (Some (l # rest)))
   \<and> (l ''id'' = None \<and> l ''launch_id'' = None \<longrightarrow>
        extra_state_attributes s (Some (l # rest)) ''launch_id'' = Some JNull)
   \<and> (l ''lifeboat_IdNo'' = None \<and> l ''lifeboat_id'' = None \<longrightarrow>
        extra_state_attributes s (Some (l # rest)) ''lifeboat_id'' = Some JNull)
   \<and> (l ''title'' = None \<and> l ''station_title'' = None \<longrightarrow>
        extra_state_attributes s (Some (l # rest)) ''station_title'' = Some JNull)
   \<and> (l ''website'' = None \<and> l ''station_website'' = None \<longrightarrow>
        extra_state_attributes s (Some (l # rest)) ''station_website'' = Some JNull)"
proof -
  have "''launch_id'' \<in> dom (extra_state_attributes s (Some (l # rest)))"
    "''lifeboat_id'' \<in> dom (extra_state_attributes s (Some (l # rest)))"
    "''station_title'' \<in> dom (extra_state_attributes s (Some (l # rest)))"
    "''station_website'' \<in> dom (extra_state_attributes s (Some (l # rest)))"
    by (simp_all add: attributes_lookup ATTR_ATTRIBUTION_def dom_def)
  then have 1: "{''launch_id'', ''lifeboat_id'', ''station_title'', ''station_website''}
      \<subseteq> dom (extra_state_attributes s (Some (l # rest)))"
    by blast
  have 2: "l ''id'' = None \<and> l ''launch_id'' = None \<longrightarrow>
        extra_state_attributes s (Some (l # rest)) ''launch_id'' = Some JNull"
    by (simp add: attributes_lookup ATTR_ATTRIBUTION_def get_def)
  have 3: "l ''lifeboat_IdNo'' = None \<and> l ''lifeboat_id'' = None \<longrightarrow>
        extra_state_attributes s (Some (l # rest)) ''lifeboat_id'' = Some JNull"
    by (simp add: attributes_lookup ATTR_ATTRIBUTION_def get_def)
  have 4: "l ''title'' = None \<and> l ''station_title'' = None \<longrightarrow>
        extra_state_attributes s (Some (l # rest)) ''station_title'' = Some JNull"
    by (simp add: attributes_lookup ATTR_ATTRIBUTION_def get_def)
  have 5: "l ''website'' = None \<and> l ''station_website'' = None \<longrightarrow>
        extra_state_attributes s (Some (l # rest)) ''station_website'' = Some JNull"
    by (simp add: attributes_lookup ATTR_ATTRIBUTION_def get_def)
  from 1 2 3 4 5 show ?thesis
    by (intro conjI)
qed

text \<open>The theorem at the launch with \<open>shortName\<close> and \<open>id\<close> only.\<close>

theorem fixed_keys_present_witness:
  "undated_launch ''title'' = None
   \<and> undated_launch ''station_title'' = None
   \<and> extra_state_attributes ''ABC'' (Some [undated_launch]) ''station_title'' = Some JNull
   \<and> extra_state_attributes ''ABC'' (Some [undated_launch]) ''lifeboat_id'' = Some JNull
   \<and> extra_state_attributes ''ABC'' (Some [undated_launch]) ''station_website'' = Some JNull
   \<and> extra_state_attributes ''ABC'' (Some [undated_launch]) ''launch_id'' = Some (JStr ''3'')
   \<and> {''launch_id'', ''lifeboat_id'', ''station_title'', ''station_website''}
        \<subseteq> dom (extra_state_attributes ''ABC'' (Some [undated_launch]))"
proof -
  have h: "undated_launch ''title'' = None" "undated_launch ''station_title'' = None"
    "undated_launch ''lifeboat_IdNo'' = None" "undated_launch ''lifeboat_id'' = None"
    "undated_launch ''website'' = None" "undated_launch ''station_website'' = None"
    by (simp_all add: undated_launch_def)
  have i: "extra_state_attributes ''ABC'' (Some [undated_launch]) ''launch_id'' = Some (JStr ''3'')"
    by (simp add: attributes_lookup known_fields_def get_def undated_launch_def ATTR_ATTRIBUTION_def)
  from h i fixed_keys_present[of "''ABC''" undated_launch "[]"] show ?thesis
    by blast
qed

text \<open>
  C10 as stated fails: a launch of station ABC with no \<open>id\<close> but a field
  \<open>launch_id\<close>. A refresh for ABC delivers it as the first record of the data; the
  attribute \<open>launch_id\<close> is that field's value, not null.
\<close>

theorem null_value_overridden_by_field:
  "async_update_data ''ABC''
     (Response 200 (Inr (JArray
        [JObj [''shortName'' \<mapsto> JStr ''ABC'', ''launch_id'' \<mapsto> JStr ''7'']])))
     = Inr [[''shortName'' \<mapsto> JStr ''ABC'', ''launch_id'' \<mapsto> JStr ''7'']]
   \<and> [''shortName'' \<mapsto> JStr ''ABC'', ''launch_id'' \<mapsto> JStr ''7''] ''id'' = None
   \<and> extra_state_attributes ''ABC''
         (Some [[''shortName'' \<mapsto> JStr ''ABC'', ''launch_id'' \<mapsto> JStr ''7'']])
         ''launch_id'' = Some (JStr ''7'')"
proof -
  have "async_update_data ''ABC''
     (Response 200 (Inr (JArray
        [JObj [''shortName'' \<mapsto> JStr ''ABC'', ''launch_id'' \<mapsto> JStr ''7'']])))
     = Inr [[''shortName'' \<mapsto> JStr ''ABC'', ''launch_id'' \<mapsto> JStr ''7'']]"
    by (simp add: async_update_data_def try_block_def select_launches_def sort_reverse_def
          eq_str_get)
  moreover have
    "[''shortName'' \<mapsto> JStr ''ABC'', ''launch_id'' \<mapsto> JStr ''7''] ''id'' = None"
    by simp
  moreover have "extra_state_attributes ''ABC''
         (Some [[''shortName'' \<mapsto> JStr ''ABC'', ''launch_id'' \<mapsto> JStr ''7'']])
         ''launch_id'' = Some (JStr ''7'')"
    by (simp add: attributes_lookup known_fields_def)
  ultimately show ?thesis
    by (intro conjI)
qed

subsection \<open>End to end\<close>

text \<open>
  C7. The response holds the January and February launches of ABC and a launch of XYZ
  with any other fields. The update returns February, then January, which is what the
  coordinator caches; on that data the state is the February instant, given that the
  standard library parses and prints this ISO string as itself; and the attribute
  \<open>launch_id\<close> is \<^verbatim>\<open>"2"\<close>.
\<close>

theorem end_to_end_example:
  assumes "isoformat ''2024-02-01T09:00:00+00:00'' = Some ''2024-02-01T09:00:00+00:00''"
  shows "async_update_data ''ABC''
           (Response 200 (Inr (JArray [JObj jan_launch, JObj feb_launch,
                                       JObj (other(''shortName'' \<mapsto> JStr ''XYZ''))])))
         = Inr [feb_launch, jan_launch]
       \<and> state isoformat (Some [feb_launch, jan_launch]) = Inr ''2024-02-01T09:00:00+00:00''
       \<and> extra_state_attributes ''ABC'' (Some [feb_launch, jan_launch]) ''launch_id''
         = Some (JStr ''2'')"
proof -
  have 1: "async_update_data ''ABC''
           (Response 200 (Inr (JArray [JObj jan_launch, JObj feb_launch,
                                       JObj (other(''shortName'' \<mapsto> JStr ''XYZ''))])))
         = Inr [feb_launch, jan_launch]"
    by (simp add: async_update_data_def try_block_def select_launches_def sort_reverse_def
          eq_str_get launchDate_key_cases jan_launch_def feb_launch_def)
  have 2: "state isoformat (Some [feb_launch, jan_launch]) = Inr ''2024-02-01T09:00:00+00:00''"
    using assms by (simp add: state_def get_def feb_launch_def)
  have 3: "extra_state_attributes ''ABC'' (Some [feb_launch, jan_launch]) ''launch_id''
         = Some (JStr ''2'')"
    by (simp add: extra_state_attributes_def map_add_def restrict_map_def known_fields_def
          get_def feb_launch_def)
  from 1 2 3 show ?thesis
    by (intro conjI)
qed

text \<open>The theorem for a parser that knows this one date, the third record being bare.\<close>

theorem end_to_end_example_witness:
  "async_update_data ''ABC''
     (Response 200 (Inr (JArray [JObj jan_launch, JObj feb_launch,
                                 JObj [''shortName'' \<mapsto> JStr ''XYZ'']])))
     = Inr [feb_launch, jan_launch]
   \<and> state (\<lambda>d. if d = ''2024-02-01T09:00:00+00:00'' then Some d else None)
        (Some [feb_launch, jan_launch]) = Inr ''2024-02-01T09:00:00+00:00''
   \<and> extra_state_attributes ''ABC'' (Some [feb_launch, jan_launch]) ''launch_id''
     = Some (JStr ''2'')"
  using end_to_end_example[of "\<lambda>d. if d = ''2024-02-01T09:00:00+00:00'' then Some d else None"
      Map.empty]
  by simp

subsection \<open>The cache across refreshes\<close>

text \<open>
  C4. If an attempt fails, with any error, the refresh returns the cache entry with the
  data it had and the error as last error; a later successful attempt replaces the data
  by the whole new result and clears the last error. A refresh and a read return a cache
  entry: the error is a field of it and not an exception.
\<close>

theorem refresh_failure_keeps_data:
  "(async_update_data s h = Inl err \<longrightarrow>
       data (refresh_now s now h c) = data c
     \<and> lastError (refresh_now s now h c) = Some err
     \<and> get_cached (refresh_now s now h c) = c\<lparr>lastError := Some err\<rparr>)
   \<and> (async_update_data s h' = Inr launches \<longrightarrow>
       data (refresh_now s now' h' (refresh_now s now h c)) = launches
     \<and> lastError (refresh_now s now' h' (refresh_now s now h c)) = None
     \<and> get_cached (refresh_now s now' h' (refresh_now s now h c))
         = c\<lparr>data := launches, lastSuccessTime := Some now', lastError := None\<rparr>)"
  by (cases "async_update_data s h") (simp_all add: refresh_now_def get_cached_def)

text \<open>The theorem at a timeout on a cache holding January, then a successful response.\<close>

theorem refresh_failure_keeps_data_witness:
  "async_update_data ''ABC'' (GetRaises TimeoutError)
     = Inl (UpdateFailed ''Unknown error parsing RNLI API data: '' TimeoutError)
   \<and> data (refresh_now ''ABC'' 300 (GetRaises TimeoutError)
             \<lparr>data = [jan_launch], lastSuccessTime = Some 0, lastError = None\<rparr>) = [jan_launch]
   \<and> lastError (refresh_now ''ABC'' 300 (GetRaises TimeoutError)
             \<lparr>data = [jan_launch], lastSuccessTime = Some 0, lastError = None\<rparr>)
       = Some (UpdateFailed ''Unknown error parsing RNLI API data: '' TimeoutError)
   \<and> async_update_data ''ABC'' (Response 200 (Inr (JArray [JObj jan_launch, JObj feb_launch])))
     = Inr [feb_launch, jan_launch]
   \<and> get_cached (refresh_now ''ABC'' 600 (Response 200 (Inr (JArray [JObj jan_launch, JObj feb_launch])))
        (refresh_now ''ABC'' 300 (GetRaises TimeoutError)
             \<lparr>data = [jan_launch], lastSuccessTime = Some 0, lastError = None\<rparr>))
       = \<lparr>data = [feb_launch, jan_launch], lastSuccessTime = Some 600, lastError = None\<rparr>"
proof -
  have f: "async_update_data ''ABC'' (GetRaises TimeoutError)
     = Inl (UpdateFailed ''Unknown error parsing RNLI API data: '' TimeoutError)"
    by (simp add: async_update_data_def try_block_def)
  have g: "async_update_data ''ABC'' (Response 200 (Inr (JArray [JObj jan_launch, JObj feb_launch])))
     = Inr [feb_launch, jan_launch]"
    by (simp add: async_update_data_def try_block_def select_launches_def sort_reverse_def
          eq_str_get launchDate_key_cases jan_launch_def feb_launch_def)
  from f g refresh_failure_keeps_data[of "''ABC''" "GetRaises TimeoutError"
      "UpdateFailed ''Unknown error parsing RNLI API data: '' TimeoutError" 300
      "\<lparr>data = [jan_launch], lastSuccessTime = Some 0, lastError = None\<rparr>"
      "Response 200 (Inr (JArray [JObj jan_launch, JObj feb_launch]))"
      "[feb_launch, jan_launch]" 600]
  show ?thesis
    by simp
qed

end
